theory Spec2Isabelle
  imports Main "HOL-Library.Monad_Syntax"
begin

section \<open>Values on the wire\<close>

text \<open>
  A JSON document as \<open>response.json()\<close> hands it to the client and as \<open>json=data\<close>
  takes it from the client. An object is the list of the items of the parsed
  dictionary, one pair per key, looked up with \<open>map_of\<close>. A number parses to an
  \<open>int\<close> or to a \<open>float\<close>; a \<open>float\<close> is held as the text that Python's \<open>str\<close> writes
  for it, which tells two floats apart. Python's \<open>None\<close> is \<open>JNull\<close>.
\<close>

datatype json =
    JNull
  | JBool bool
  | JInt int
  | JFloat string
  | JStr string
  | JArr "json list"
  | JObj "(string \<times> json) list"

text \<open>
  The exceptions that can leave the client: the built-in ones, those of the
  \<open>requests\<close> and \<open>pydantic\<close> libraries, and the three classes of \<open>errors.py\<close>.
  \<open>HTTPError\<close> carries the status that \<open>raise_for_status\<close> rejected, \<open>MochiError\<close>
  the detail that \<open>trash_card\<close> formats into its message.
\<close>

datatype error =
    ValueError
  | TypeError
  | AttributeError
  | ValidationError
  | JSONDecodeError
  | ConnectionError
  | HTTPError nat
  | MochiError json
  | MochiAuthenticationError
  | MochiNotFoundError

section \<open>The HTTP executor\<close>

datatype http_method = GET | POST | DELETE

datatype param = PStr string | PInt int

text \<open>
  One call of \<open>requests.get\<close>, \<open>requests.post\<close> or \<open>requests.delete\<close>, with the keyword
  arguments the client passes. A keyword left out of the call is \<open>None\<close> or the empty
  list; a query parameter whose value is \<open>None\<close> is still an entry of \<open>params\<close>.
\<close>

record request =
  meth :: http_method
  url :: string
  params :: "(string \<times> param option) list"
  json_body :: "json option"
  headers :: "(string \<times> string) list"
  timeout :: "nat option"

text \<open>
  The response object: its status and its body, \<open>None\<close> when the body is not JSON.
\<close>

record response =
  status_code :: nat
  body :: "json option"

text \<open>
  The world outside the client: the process environment, the replies the transport
  will deliver to the successive calls (a response, or the exception the call
  raises), and the calls made so far. When no reply is left the call fails as an
  unreachable service does.
\<close>

record world =
  environ :: "string \<rightharpoonup> string"
  replies :: "(error + response) list"
  sent :: "request list"

definition requests_request :: "request \<Rightarrow> world \<Rightarrow> (error + response) \<times> world" where
  "requests_request rq w =
     (case replies w of
        [] \<Rightarrow> (Inl ConnectionError, w\<lparr>sent := sent w @ [rq]\<rparr>)
      | r # rs \<Rightarrow> (r, w\<lparr>replies := rs, sent := sent w @ [rq]\<rparr>))"

definition raise_for_status :: "response \<Rightarrow> error + response" where
  "raise_for_status r =
     (if 400 \<le> status_code r \<and> status_code r < 600
      then Inl (HTTPError (status_code r)) else Inr r)"

definition ok :: "response \<Rightarrow> bool" where
  "ok r = (case raise_for_status r of Inl _ \<Rightarrow> False | Inr _ \<Rightarrow> True)"

definition response_json :: "response \<Rightarrow> error + json" where
  "response_json r = (case body r of None \<Rightarrow> Inl JSONDecodeError | Some j \<Rightarrow> Inr j)"

section \<open>The client\<close>

definition BASE_URL :: string where
  "BASE_URL = ''https://api.mochi.cards/api''"

record client =
  api_key :: string
  base_url :: string
  client_headers :: "(string \<times> string) list"

text \<open>
  \<open>MochiClient.__init__\<close>. An argument left out of the call is \<open>None\<close>: the key then
  comes from the environment, the base address is \<open>BASE_URL\<close>. \<open>not api_key\<close> holds of
  \<open>None\<close> and of the empty string.
\<close>

definition MochiClient_init ::
  "string option \<Rightarrow> string option \<Rightarrow> world \<Rightarrow> (error + client) \<times> world" where
  "MochiClient_init key base w =
     (let key = (case key of None \<Rightarrow> environ w ''MOCHI_API_KEY'' | Some k \<Rightarrow> Some k)
      in case key of
           None \<Rightarrow> (Inl ValueError, w)
         | Some k \<Rightarrow>
             if k = [] then (Inl ValueError, w)
             else (Inr \<lparr>api_key = k,
                        base_url = (case base of None \<Rightarrow> BASE_URL | Some b \<Rightarrow> b),
                        client_headers = [(''Authorization'', ''Bearer '' @ k),
                                          (''Content-Type'', ''application/json'')]\<rparr>, w))"

section \<open>The models\<close>

text \<open>
  The classes of \<open>models.py\<close> are pydantic models: the constructor looks every
  declared field up under its alias, takes the default of a field that is not
  required when the key is absent, validates the value otherwise, ignores every
  other key, and raises \<open>ValidationError\<close> as soon as one field fails.

  The validator of a \<open>str\<close> field keeps a string and writes a number or a boolean
  out as Python's \<open>str\<close> does; it rejects anything else.
\<close>

definition digit :: "nat \<Rightarrow> char" where
  "digit d = char_of (48 + d)"

fun str_nat :: "nat \<Rightarrow> string" where
  "str_nat n = (if n < 10 then [digit n] else str_nat (n div 10) @ [digit (n mod 10)])"

declare str_nat.simps [simp del]

definition str_int :: "int \<Rightarrow> string" where
  "str_int i = (if i < 0 then CHR ''-'' # str_nat (nat (- i)) else str_nat (nat i))"

fun str_validator :: "json \<Rightarrow> string option" where
  "str_validator (JStr s) = Some s"
| "str_validator (JInt i) = Some (str_int i)"
| "str_validator (JFloat x) = Some x"
| "str_validator (JBool b) = Some (if b then ''True'' else ''False'')"
| "str_validator _ = None"

text \<open>
  The validators of \<open>bool\<close>, \<open>Dict\<close>, \<open>List\<close> and \<open>datetime\<close> belong to the library and
  are parameters of the model; \<open>'dt\<close> is the type of a parsed timestamp. \<open>dict_v\<close>
  and \<open>list_v\<close> return the items of the dictionary and the elements of the list
  that the value is, or is converted to.
\<close>

record 'dt validators =
  bool_v :: "json \<Rightarrow> bool option"
  dict_v :: "json \<Rightarrow> (json \<times> json) list option"
  list_v :: "json \<Rightarrow> json list option"
  datetime_v :: "json \<Rightarrow> 'dt option"

text \<open>
  A field whose type is not \<open>Optional\<close> rejects \<open>None\<close> before its validator runs;
  an \<open>Optional\<close> field accepts it.
\<close>

definition strict :: "(json \<Rightarrow> 'a option) \<Rightarrow> json \<Rightarrow> 'a option" where
  "strict v x = (if x = JNull then None else v x)"

definition optional :: "(json \<Rightarrow> 'a option) \<Rightarrow> json \<Rightarrow> 'a option option" where
  "optional v x = (if x = JNull then Some None else map_option Some (v x))"

definition list_of :: "'dt validators \<Rightarrow> (json \<Rightarrow> 'a option) \<Rightarrow> json \<Rightarrow> 'a list option" where
  "list_of V v x = do { xs \<leftarrow> list_v V x; those (map (strict v) xs) }"

definition dict_of ::
  "'dt validators \<Rightarrow> (json \<Rightarrow> 'a option) \<Rightarrow> (json \<Rightarrow> 'b option) \<Rightarrow> json \<Rightarrow> ('a \<times> 'b) list option" where
  "dict_of V kv vv x =
     do { kvs \<leftarrow> dict_v V x;
          those (map (\<lambda>(k, v). do { k' \<leftarrow> strict kv k; v' \<leftarrow> strict vv v; Some (k', v') }) kvs) }"

definition required :: "(json \<Rightarrow> 'a option) \<Rightarrow> (string \<times> json) list \<Rightarrow> string \<Rightarrow> 'a option" where
  "required v kw k = (case map_of kw k of None \<Rightarrow> None | Some x \<Rightarrow> v x)"

definition defaulted :: "(json \<Rightarrow> 'a option) \<Rightarrow> (string \<times> json) list \<Rightarrow> string \<Rightarrow> 'a \<Rightarrow> 'a option" where
  "defaulted v kw k d = (case map_of kw k of None \<Rightarrow> Some d | Some x \<Rightarrow> v x)"

text \<open>
  \<open>Card\<close>. The fields \<open>id\<close> and \<open>fields\<close> are \<open>ident\<close> and \<open>fields'\<close> here. \<open>name\<close> is \<open>Optional\<close> with no default
  written, which the library reads as the default \<open>None\<close>. The alias table has an
  entry \<open>new\<close> for which the class has no field.
\<close>

record 'dt Card =
  ident :: string
  content :: string
  deck_id :: string
  template_id :: "string option"
  fields' :: "(json \<times> json) list"
  attachments :: "json list"
  archived :: bool
  pos :: "string option"
  created_at :: "(string \<times> 'dt) list"
  updated_at :: "(string \<times> 'dt) list"
  tags :: "string list"
  name :: "string option"
  references :: "string list"
  reviews :: "string list"


definition Card_fields :: "'dt validators \<Rightarrow> (string \<times> json) list \<Rightarrow> 'dt Card option" where
  "Card_fields V kw =
     do { i \<leftarrow> required (strict str_validator) kw ''id'';
          c \<leftarrow> required (strict str_validator) kw ''content'';
          d \<leftarrow> required (strict str_validator) kw ''deck-id'';
          t \<leftarrow> defaulted (optional str_validator) kw ''template-id'' None;
          f \<leftarrow> defaulted (strict (dict_v V)) kw ''fields'' [];
          a \<leftarrow> defaulted (strict (list_v V)) kw ''attachments'' [];
          ar \<leftarrow> defaulted (strict (bool_v V)) kw ''archived?'' False;
          p \<leftarrow> defaulted (optional str_validator) kw ''pos'' None;
          cr \<leftarrow> required (strict (dict_of V str_validator (datetime_v V))) kw ''created-at'';
          up \<leftarrow> required (strict (dict_of V str_validator (datetime_v V))) kw ''updated-at'';
          tg \<leftarrow> defaulted (strict (list_of V str_validator)) kw ''tags'' [];
          n \<leftarrow> defaulted (optional str_validator) kw ''name'' None;
          rf \<leftarrow> defaulted (strict (list_of V str_validator)) kw ''references'' [];
          rv \<leftarrow> defaulted (strict (list_of V str_validator)) kw ''reviews'' [];
          Some \<lparr>ident = i, content = c, deck_id = d, template_id = t, fields' = f,
                attachments = a, archived = ar, pos = p, created_at = cr, updated_at = up,
                tags = tg, name = n, references = rf, reviews = rv\<rparr> }"

definition Card_init :: "'dt validators \<Rightarrow> (string \<times> json) list \<Rightarrow> error + 'dt Card" where
  "Card_init V kw = (case Card_fields V kw of None \<Rightarrow> Inl ValidationError | Some c \<Rightarrow> Inr c)"

text \<open>
  \<open>Card(**response.json())\<close>: the double star takes a mapping only.
\<close>

definition Card_of_json :: "'dt validators \<Rightarrow> json \<Rightarrow> error + 'dt Card" where
  "Card_of_json V j = (case j of JObj kw \<Rightarrow> Card_init V kw | _ \<Rightarrow> Inl TypeError)"

text \<open>
  A \<open>Card\<close> inside another model: a dictionary, or a value converted to one, whose
  keys are the keyword names; every failure is one of the enclosing validation.
\<close>

fun keyword :: "json \<times> json \<Rightarrow> (string \<times> json) option" where
  "keyword (JStr k, v) = Some (k, v)"
| "keyword _ = None"

definition Card_validate :: "'dt validators \<Rightarrow> json \<Rightarrow> 'dt Card option" where
  "Card_validate V x =
     do { kvs \<leftarrow> dict_v V x; kw \<leftarrow> those (map keyword kvs); Card_fields V kw }"

record 'dt PaginatedCards =
  bookmark :: "string option"
  docs :: "'dt Card list"

definition PaginatedCards_init ::
  "'dt validators \<Rightarrow> (string \<times> json) list \<Rightarrow> error + 'dt PaginatedCards" where
  "PaginatedCards_init V kw =
     (case do { b \<leftarrow> defaulted (optional str_validator) kw ''bookmark'' None;
                ds \<leftarrow> required (strict (list_of V (Card_validate V))) kw ''docs'';
                Some \<lparr>bookmark = b, docs = ds\<rparr> }
      of None \<Rightarrow> Inl ValidationError | Some p \<Rightarrow> Inr p)"

definition PaginatedCards_of_json :: "'dt validators \<Rightarrow> json \<Rightarrow> error + 'dt PaginatedCards" where
  "PaginatedCards_of_json V j =
     (case j of JObj kw \<Rightarrow> PaginatedCards_init V kw | _ \<Rightarrow> Inl TypeError)"

text \<open>
  \<open>CardData\<close>, built from the client's own arguments, each \<open>None\<close> or a value of the
  annotated type: \<open>content\<close>, \<open>deck_id\<close>, \<open>archived\<close> and \<open>review_reverse\<close> are not
  \<open>Optional\<close> and reject \<open>None\<close>. The class has no alias, and \<open>dict()\<close> returns every
  field under its own name, \<open>None\<close> included.
\<close>

record CardData =
  data_content :: string
  data_deck_id :: string
  data_template_id :: "string option"
  data_fields :: "(string \<times> json) list option"
  data_attachments :: "json list option"
  data_archived :: bool
  data_pos :: "string option"
  data_review_reverse :: bool

definition CardData_init ::
  "string option \<Rightarrow> string option \<Rightarrow> string option \<Rightarrow> (string \<times> json) list option \<Rightarrow>
   json list option \<Rightarrow> bool option \<Rightarrow> string option \<Rightarrow> bool option \<Rightarrow> error + CardData" where
  "CardData_init c d t f a ar p rr =
     (case (c, d, ar, rr) of
        (Some c', Some d', Some ar', Some rr') \<Rightarrow>
          Inr \<lparr>data_content = c', data_deck_id = d', data_template_id = t, data_fields = f,
               data_attachments = a, data_archived = ar', data_pos = p,
               data_review_reverse = rr'\<rparr>
      | _ \<Rightarrow> Inl ValidationError)"

definition json_opt :: "('a \<Rightarrow> json) \<Rightarrow> 'a option \<Rightarrow> json" where
  "json_opt f x = (case x of None \<Rightarrow> JNull | Some v \<Rightarrow> f v)"

definition CardData_dict :: "CardData \<Rightarrow> (string \<times> json) list" where
  "CardData_dict d =
     [(''content'', JStr (data_content d)),
      (''deck_id'', JStr (data_deck_id d)),
      (''template_id'', json_opt JStr (data_template_id d)),
      (''fields'', json_opt JObj (data_fields d)),
      (''attachments'', json_opt JArr (data_attachments d)),
      (''archived'', JBool (data_archived d)),
      (''pos'', json_opt JStr (data_pos d)),
      (''review_reverse'', JBool (data_review_reverse d))]"

section \<open>The operations\<close>

definition and_then :: "error + 'a \<Rightarrow> ('a \<Rightarrow> error + 'b) \<Rightarrow> error + 'b" where
  "and_then r f = (case r of Inl e \<Rightarrow> Inl e | Inr x \<Rightarrow> f x)"

text \<open>
  What every operation but \<open>trash_card\<close> does with the response:
  \<open>response.raise_for_status()\<close>, then \<open>response.json()\<close>.
\<close>

definition checked_json :: "error + response \<Rightarrow> error + json" where
  "checked_json r =
     and_then r (\<lambda>response. and_then (raise_for_status response) response_json)"

definition create_card ::
  "'dt validators \<Rightarrow> client \<Rightarrow> string \<Rightarrow> string \<Rightarrow> string option \<Rightarrow>
   (string \<times> json) list option \<Rightarrow> json list option \<Rightarrow> bool \<Rightarrow> string option \<Rightarrow> bool \<Rightarrow>
   world \<Rightarrow> (error + 'dt Card) \<times> world" where
  "create_card V self c d t f a ar p rr w =
     (case CardData_init (Some c) (Some d) t f a (Some ar) p (Some rr) of
        Inl e \<Rightarrow> (Inl e, w)
      | Inr data \<Rightarrow>
          (case requests_request
                  \<lparr>meth = POST, url = base_url self @ ''/cards/'', params = [],
                   json_body = Some (JObj (CardData_dict data)),
                   headers = client_headers self, timeout = Some 5\<rparr> w of
             (r, w') \<Rightarrow> (and_then (checked_json r) (Card_of_json V), w')))"

definition get_card ::
  "'dt validators \<Rightarrow> client \<Rightarrow> string \<Rightarrow> world \<Rightarrow> (error + 'dt Card) \<times> world" where
  "get_card V self cid w =
     (case requests_request
             \<lparr>meth = GET, url = base_url self @ ''/cards/'' @ cid, params = [],
              json_body = None, headers = client_headers self, timeout = Some 5\<rparr> w of
        (r, w') \<Rightarrow> (and_then (checked_json r) (Card_of_json V), w'))"

text \<open>
  \<open>_list_cards\<close>, one page. \<open>page_request\<close> is the call it makes.
\<close>

definition page_request ::
  "client \<Rightarrow> string option \<Rightarrow> int option \<Rightarrow> string option \<Rightarrow> request" where
  "page_request self d l b =
     \<lparr>meth = GET, url = base_url self @ ''/cards/'',
      params = [(''deck-id'', map_option PStr d), (''limit'', map_option PInt l),
                (''bookmark'', map_option PStr b)],
      json_body = None, headers = client_headers self, timeout = Some 5\<rparr>"

definition list_cards_page ::
  "'dt validators \<Rightarrow> client \<Rightarrow> string option \<Rightarrow> int option \<Rightarrow> string option \<Rightarrow>
   world \<Rightarrow> (error + 'dt PaginatedCards) \<times> world" where
  "list_cards_page V self d l b w =
     (case requests_request (page_request self d l b) w of
        (r, w') \<Rightarrow> (and_then (checked_json r) (PaginatedCards_of_json V), w'))"

definition update_card ::
  "'dt validators \<Rightarrow> client \<Rightarrow> string \<Rightarrow> string option \<Rightarrow> string option \<Rightarrow>
   (string \<times> json) list option \<Rightarrow> json list option \<Rightarrow> bool option \<Rightarrow> string option \<Rightarrow>
   world \<Rightarrow> (error + 'dt Card) \<times> world" where
  "update_card V self cid c d f a ar p w =
     (case CardData_init c d None f a ar p (Some False) of
        Inl e \<Rightarrow> (Inl e, w)
      | Inr data \<Rightarrow>
          (case requests_request
                  \<lparr>meth = POST, url = base_url self @ ''/cards/'' @ cid, params = [],
                   json_body = Some (JObj (CardData_dict data)),
                   headers = client_headers self, timeout = Some 5\<rparr> w of
             (r, w') \<Rightarrow> (and_then (checked_json r) (Card_of_json V), w')))"

definition delete_card :: "client \<Rightarrow> string \<Rightarrow> world \<Rightarrow> (error + unit) \<times> world" where
  "delete_card self cid w =
     (case requests_request
             \<lparr>meth = DELETE, url = base_url self @ ''/cards/'' @ cid, params = [],
              json_body = None, headers = client_headers self, timeout = Some 5\<rparr> w of
        (r, w') \<Rightarrow>
          (and_then r (\<lambda>response. and_then (raise_for_status response) (\<lambda>_. Inr ())), w'))"

definition trash_card :: "client \<Rightarrow> string \<Rightarrow> world \<Rightarrow> (error + json) \<times> world" where
  "trash_card self cid w =
     (case requests_request
             \<lparr>meth = POST, url = BASE_URL @ ''/cards/'' @ cid @ ''/trash'', params = [],
              json_body = None, headers = client_headers self, timeout = None\<rparr> w of
        (r, w') \<Rightarrow>
          (and_then r (\<lambda>response.
             if status_code response = 401 then Inl MochiAuthenticationError
             else if status_code response = 404 then Inl MochiNotFoundError
             else if \<not> ok response then
               and_then (response_json response) (\<lambda>j.
                 case j of
                   JObj kw \<Rightarrow>
                     Inl (MochiError (case map_of kw ''message'' of
                                        None \<Rightarrow> JStr ''Unknown error occurred.''
                                      | Some m \<Rightarrow> m))
                 | _ \<Rightarrow> Inl AttributeError)
             else response_json response), w'))"

text \<open>
  \<open>list_cards\<close>, consumed to its end: the cards it yields, the exception that ends
  the iteration if one does, and the world afterwards. \<open>not page_cards.bookmark\<close>
  holds of \<open>None\<close> and of the empty string. The loop ends because every page that
  lets it continue used up one reply.
\<close>

definition truthy :: "string option \<Rightarrow> bool" where
  "truthy b = (case b of None \<Rightarrow> False | Some s \<Rightarrow> s \<noteq> [])"

lemma list_cards_page_consumes:
  "list_cards_page V self d l b w = (Inr p, w') \<Longrightarrow> length (replies w') < length (replies w)"
  by (auto simp: list_cards_page_def requests_request_def checked_json_def and_then_def
           split: list.splits sum.splits)

function list_cards ::
  "'dt validators \<Rightarrow> client \<Rightarrow> string option \<Rightarrow> int option \<Rightarrow> string option \<Rightarrow>
   world \<Rightarrow> ('dt Card list \<times> error option) \<times> world" where
  "list_cards V self d l b w =
     (case list_cards_page V self d l b w of
        (Inl e, w') \<Rightarrow> (([], Some e), w')
      | (Inr page_cards, w') \<Rightarrow>
          if docs page_cards = [] \<or> \<not> truthy (bookmark page_cards) then (([], None), w')
          else (case list_cards V self d l (bookmark page_cards) w' of
                  ((cards, e), w'') \<Rightarrow> ((docs page_cards @ cards, e), w'')))"
  by pat_completeness auto
termination
  by (relation "measure (\<lambda>(V, self, d, l, b, w). length (replies w))")
     (auto dest: list_cards_page_consumes [OF sym])

declare list_cards.simps [simp del]

section \<open>Concrete inputs\<close>

text \<open>
  An instance of the library's validators for the examples below to run on. It
  takes a value that is already of the annotated type, a boolean, an object, an
  array, and a string for a timestamp, which it keeps as its text. The library
  converts more values than these, and turns down a string that is no timestamp;
  every example below stays on values where the two agree.
\<close>

fun bool_plain :: "json \<Rightarrow> bool option" where
  "bool_plain (JBool b) = Some b"
| "bool_plain _ = None"

fun dict_plain :: "json \<Rightarrow> (json \<times> json) list option" where
  "dict_plain (JObj kvs) = Some (map (\<lambda>(k, v). (JStr k, v)) kvs)"
| "dict_plain _ = None"

fun list_plain :: "json \<Rightarrow> json list option" where
  "list_plain (JArr xs) = Some xs"
| "list_plain _ = None"

fun datetime_plain :: "json \<Rightarrow> string option" where
  "datetime_plain (JStr s) = Some s"
| "datetime_plain _ = None"

definition plain_validators :: "string validators" where
  "plain_validators =
     \<lparr>bool_v = bool_plain, dict_v = dict_plain, list_v = list_plain,
      datetime_v = datetime_plain\<rparr>"

text \<open>
  The cards of the test suite's pages, on the wire and decoded, and a client
  pointed at a test double.
\<close>

definition card_items :: "string \<Rightarrow> string \<Rightarrow> (string \<times> json) list" where
  "card_items i p =
     [(''tags'', JArr []), (''content'', JStr ''# Hello, world!''),
      (''name'', JStr ''Hello world''), (''deck-id'', JStr ''eH53Hxe8''),
      (''fields'', JObj []), (''pos'', JStr p), (''references'', JArr []),
      (''id'', JStr i), (''reviews'', JArr []),
      (''created-at'', JObj [(''date'', JStr ''2021-09-09T02:49:58.535Z'')]),
      (''updated-at'', JObj [(''date'', JStr ''2021-09-09T02:49:58.535Z'')])]"

definition card_json :: "string \<Rightarrow> string \<Rightarrow> json" where
  "card_json i p = JObj (card_items i p)"

definition card :: "string \<Rightarrow> string \<Rightarrow> string Card" where
  "card i p =
     \<lparr>ident = i, content = ''# Hello, world!'', deck_id = ''eH53Hxe8'', template_id = None,
      fields' = [], attachments = [], archived = False, pos = Some p,
      created_at = [(''date'', ''2021-09-09T02:49:58.535Z'')],
      updated_at = [(''date'', ''2021-09-09T02:49:58.535Z'')],
      tags = [], name = Some ''Hello world'', references = [], reviews = []\<rparr>"

definition page_json :: "json \<Rightarrow> json list \<Rightarrow> json" where
  "page_json b ds = JObj [(''bookmark'', b), (''docs'', JArr ds)]"

definition test_double :: client where
  "test_double =
     \<lparr>api_key = ''secret'', base_url = ''http://localhost:8000'',
      client_headers = [(''Authorization'', ''Bearer secret''),
                        (''Content-Type'', ''application/json'')]\<rparr>"

definition serving :: "(error + response) list \<Rightarrow> world" where
  "serving rs = \<lparr>environ = Map.empty, replies = rs, sent = []\<rparr>"

section \<open>Facts about the models\<close>

lemma plain_validators_sel [simp]:
  "bool_v plain_validators = bool_plain" "dict_v plain_validators = dict_plain"
  "list_v plain_validators = list_plain" "datetime_v plain_validators = datetime_plain"
  by (simp_all add: plain_validators_def)

lemma card_json_not_null [simp]: "card_json i p \<noteq> JNull"
  by (simp add: card_json_def)

lemma Card_validate_card_json [simp]:
  "Card_validate plain_validators (card_json i p) = Some (card i p)"
  by (simp add: Card_validate_def card_json_def card_items_def card_def Card_fields_def
      required_def defaulted_def strict_def optional_def list_of_def dict_of_def)







section \<open>Pagination\<close>

lemma list_cards_page_reply:
  "replies w = r # rs \<Longrightarrow>
   list_cards_page V self d l b w =
     (and_then (checked_json r) (PaginatedCards_of_json V),
      w\<lparr>replies := rs, sent := sent w @ [page_request self d l b]\<rparr>)"
  by (simp add: list_cards_page_def requests_request_def)

lemma list_cards_page_sent:
  "sent (snd (list_cards_page V self d l b w)) = sent w @ [page_request self d l b]"
  by (simp add: list_cards_page_def requests_request_def split: list.splits)

lemma list_cards_last_page:
  assumes "replies w = r # rs"
    and "and_then (checked_json r) (PaginatedCards_of_json V) = Inr p"
    and "docs p = [] \<or> \<not> truthy (bookmark p)"
  shows "list_cards V self d l b w =
           (([], None), w\<lparr>replies := rs, sent := sent w @ [page_request self d l b]\<rparr>)"
  using assms by (subst list_cards.simps) (simp add: list_cards_page_reply)

lemma list_cards_next_page:
  assumes "replies w = r # rs"
    and "and_then (checked_json r) (PaginatedCards_of_json V) = Inr p"
    and "docs p \<noteq> []" and "truthy (bookmark p)"
  shows "list_cards V self d l b w =
           (case list_cards V self d l (bookmark p)
                   (w\<lparr>replies := rs, sent := sent w @ [page_request self d l b]\<rparr>) of
              ((cards, e), w'') \<Rightarrow> ((docs p @ cards, e), w''))"
  using assms by (subst list_cards.simps) (simp add: list_cards_page_reply)

lemmas page_eval =
  checked_json_def and_then_def raise_for_status_def response_json_def page_json_def
  PaginatedCards_of_json_def PaginatedCards_init_def required_def defaulted_def strict_def
  optional_def list_of_def

text \<open>
  C1. A page that has cards but no continuation token ends the iteration, and no
  further page is requested; the code leaves the loop before it yields, so the
  cards of that page never reach the consumer. Here the only page holds
  \<open>card_1\<close> and a null bookmark: one request is sent and nothing is yielded.
\<close>

theorem list_cards_drops_last_page:
  "list_cards plain_validators test_double None None None
     (serving [Inr \<lparr>status_code = 200,
                    body = Some (page_json JNull [card_json ''card_1'' ''1''])\<rparr>])
   = (([], None),
      \<lparr>environ = Map.empty, replies = [],
       sent = [page_request test_double None None None]\<rparr>)"
  by (subst list_cards.simps)
     (simp add: serving_def list_cards_page_def requests_request_def truthy_def page_eval)

text \<open>
  C5. A server that returns a page of two cards with token \<open>T1\<close>, then a page of two
  cards with token \<open>T2\<close>, then an empty page with a null token: \<open>list_cards\<close> yields
  the four cards in the order of the server and ends normally after three
  requests, the second and third carrying \<open>T1\<close> and \<open>T2\<close>; whatever the server had
  to say next is left unread.
\<close>

theorem list_cards_three_pages:
  assumes "replies w = Inr r1 # Inr r2 # Inr r3 # rest"
    and "and_then (checked_json (Inr r1)) (PaginatedCards_of_json V)
           = Inr \<lparr>bookmark = Some T1, docs = [c1, c2]\<rparr>"
    and "and_then (checked_json (Inr r2)) (PaginatedCards_of_json V)
           = Inr \<lparr>bookmark = Some T2, docs = [c3, c4]\<rparr>"
    and "and_then (checked_json (Inr r3)) (PaginatedCards_of_json V)
           = Inr \<lparr>bookmark = None, docs = []\<rparr>"
    and "T1 \<noteq> []" and "T2 \<noteq> []"
  shows "list_cards V self d l b w =
           (([c1, c2, c3, c4], None),
            w\<lparr>replies := rest,
              sent := sent w @ [page_request self d l b, page_request self d l (Some T1),
                                page_request self d l (Some T2)]\<rparr>)"
proof -
  let ?w1 = "w\<lparr>replies := Inr r2 # Inr r3 # rest, sent := sent w @ [page_request self d l b]\<rparr>"
  let ?w2 = "?w1\<lparr>replies := Inr r3 # rest, sent := sent ?w1 @ [page_request self d l (Some T1)]\<rparr>"
  have third: "list_cards V self d l (Some T2) ?w2 =
      (([], None), ?w2\<lparr>replies := rest, sent := sent ?w2 @ [page_request self d l (Some T2)]\<rparr>)"
    by (rule list_cards_last_page [OF _ assms(4)]) simp_all
  have second: "list_cards V self d l (Some T1) ?w1 =
      (([c3, c4], None), ?w2\<lparr>replies := rest, sent := sent ?w2 @ [page_request self d l (Some T2)]\<rparr>)"
    using list_cards_next_page [OF _ assms(3), of ?w1 "Inr r3 # rest" self d l "Some T1"] third assms(6)
    by (simp add: truthy_def)
  show ?thesis
    using list_cards_next_page [OF assms(1) assms(2), of self d l b] second assms(5)
    by (simp add: truthy_def)
qed

theorem list_cards_three_pages_witness:
  "list_cards plain_validators test_double None None None
     (serving
        [Inr \<lparr>status_code = 200,
              body = Some (page_json (JStr ''bookmark1'')
                             [card_json ''card_1'' ''1'', card_json ''card_2'' ''2''])\<rparr>,
         Inr \<lparr>status_code = 200,
              body = Some (page_json (JStr ''bookmark2'')
                             [card_json ''card_3'' ''1'', card_json ''card_4'' ''2''])\<rparr>,
         Inr \<lparr>status_code = 200, body = Some (page_json JNull [])\<rparr>])
   = (([card ''card_1'' ''1'', card ''card_2'' ''2'', card ''card_3'' ''1'',
        card ''card_4'' ''2''], None),
      \<lparr>environ = Map.empty, replies = [],
       sent = [page_request test_double None None None,
               page_request test_double None None (Some ''bookmark1''),
               page_request test_double None None (Some ''bookmark2'')]\<rparr>)"
  using list_cards_three_pages
    [of "serving
        [Inr \<lparr>status_code = 200,
              body = Some (page_json (JStr ''bookmark1'')
                             [card_json ''card_1'' ''1'', card_json ''card_2'' ''2''])\<rparr>,
         Inr \<lparr>status_code = 200,
              body = Some (page_json (JStr ''bookmark2'')
                             [card_json ''card_3'' ''1'', card_json ''card_4'' ''2''])\<rparr>,
         Inr \<lparr>status_code = 200, body = Some (page_json JNull [])\<rparr>]"
        _ _ _ "[]" plain_validators "''bookmark1''" "card ''card_1'' ''1''" "card ''card_2'' ''2''"
        "''bookmark2''" "card ''card_3'' ''1''" "card ''card_4'' ''2''"
        test_double None None None]
  by (simp add: serving_def page_eval)

text \<open>
  C6. Every page request that \<open>list_cards\<close> issues is the same call with the same
  \<open>deck-id\<close> and \<open>limit\<close>, the first with the caller's bookmark: the requests differ
  in the bookmark only.
\<close>

theorem list_cards_forwards_filters:
  "\<exists>bs. sent (snd (list_cards V self d l b w)) =
         sent w @ map (\<lambda>b'. \<lparr>meth = GET, url = base_url self @ ''/cards/'',
                              params = [(''deck-id'', map_option PStr d),
                                        (''limit'', map_option PInt l),
                                        (''bookmark'', map_option PStr b')],
                              json_body = None, headers = client_headers self,
                              timeout = Some 5\<rparr>) (b # bs)"
proof (induction V self d l b w rule: list_cards.induct)
  case (1 V self d l b w)
  obtain r w' where page: "list_cards_page V self d l b w = (r, w')"
    by (cases "list_cards_page V self d l b w")
  then have w': "sent w' = sent w @ [page_request self d l b]"
    using list_cards_page_sent [of V self d l b w] by simp
  show ?case
  proof (cases r)
    case (Inl e)
    with page w' show ?thesis
      by (subst list_cards.simps) (simp add: page_request_def)
  next
    case (Inr p)
    show ?thesis
    proof (cases "docs p = [] \<or> \<not> truthy (bookmark p)")
      case True
      with page w' Inr show ?thesis
        by (subst list_cards.simps) (simp add: page_request_def)
    next
      case False
      from "1.IH" [OF page [symmetric] Inr False]
      obtain bs where "sent (snd (list_cards V self d l (bookmark p) w')) =
          sent w' @ map (\<lambda>b'. \<lparr>meth = GET, url = base_url self @ ''/cards/'',
                              params = [(''deck-id'', map_option PStr d),
                                        (''limit'', map_option PInt l),
                                        (''bookmark'', map_option PStr b')],
                              json_body = None, headers = client_headers self,
                              timeout = Some 5\<rparr>) (bookmark p # bs)"
        by blast
      with page w' Inr False show ?thesis
        by (subst list_cards.simps)
           (auto simp: page_request_def split: prod.splits intro!: exI [of _ "bookmark p # bs"])
    qed
  qed
qed

theorem list_cards_forwards_filters_witness:
  "\<exists>bs. sent (snd (list_cards plain_validators test_double (Some ''eH53Hxe8'') (Some 2) None
                     (serving [Inr \<lparr>status_code = 200,
                                    body = Some (page_json (JStr ''bookmark1'')
                                       [card_json ''card_1'' ''1'', card_json ''card_2'' ''2''])\<rparr>,
                               Inr \<lparr>status_code = 200, body = Some (page_json JNull [])\<rparr>]))) =
         map (\<lambda>b'. \<lparr>meth = GET, url = ''http://localhost:8000/cards/'',
                      params = [(''deck-id'', Some (PStr ''eH53Hxe8'')),
                                (''limit'', Some (PInt 2)),
                                (''bookmark'', map_option PStr b')],
                      json_body = None,
                      headers = [(''Authorization'', ''Bearer secret''),
                                 (''Content-Type'', ''application/json'')],
                      timeout = Some 5\<rparr>) (None # bs)"
  using list_cards_forwards_filters
    [of plain_validators test_double "Some ''eH53Hxe8''" "Some 2" None
        "serving [Inr \<lparr>status_code = 200,
                                    body = Some (page_json (JStr ''bookmark1'')
                                       [card_json ''card_1'' ''1'', card_json ''card_2'' ''2''])\<rparr>,
                               Inr \<lparr>status_code = 200, body = Some (page_json JNull [])\<rparr>]"]
  by (simp add: serving_def test_double_def)

section \<open>Decoding\<close>






lemma get_card_malformed:
  assumes "replies w = Inr r # rs" and "\<not> (400 \<le> status_code r \<and> status_code r < 600)"
    and "body r = Some (JObj kw)" and "Card_of_json V (JObj kw) = Inl ValidationError"
  shows "fst (get_card V self cid w) = Inl ValidationError"
  using assms
  by (simp add: get_card_def requests_request_def checked_json_def and_then_def
        raise_for_status_def response_json_def)

section \<open>Fetching\<close>

text \<open>
  C4, as the code has it. \<open>get_card\<close> leaves the status to \<open>raise_for_status\<close>: a 404
  and a 401 both raise the \<open>HTTPError\<close> of the \<open>requests\<close> library, carrying the
  status, and no \<open>Card\<close> is returned.
\<close>

theorem get_card_error_status:
  assumes "replies w = Inr r # rs" and "status_code r = 404 \<or> status_code r = 401"
  shows "fst (get_card V self cid w) = Inl (HTTPError (status_code r))"
  using assms
  by (auto simp: get_card_def requests_request_def checked_json_def and_then_def
        raise_for_status_def)

theorem get_card_error_status_witness:
  "fst (get_card plain_validators test_double ''card_456''
          (serving [Inr \<lparr>status_code = 401, body = None\<rparr>])) = Inl (HTTPError 401)"
  using get_card_error_status
    [of "serving [Inr \<lparr>status_code = 401, body = None\<rparr>]"
        "\<lparr>status_code = 401, body = None\<rparr>" "[]" plain_validators test_double "''card_456''"]
  by (simp add: serving_def)

text \<open>
  C4, as the claim has it, fails: on a 404 \<open>get_card\<close> raises \<open>HTTPError\<close>, not
  \<open>MochiNotFoundError\<close>.
\<close>

theorem get_card_404_not_NotFoundError:
  "fst (get_card plain_validators test_double ''nonexistent_card_789''
          (serving [Inr \<lparr>status_code = 404, body = None\<rparr>])) = Inl (HTTPError 404)
   \<and> fst (get_card plain_validators test_double ''nonexistent_card_789''
          (serving [Inr \<lparr>status_code = 404, body = None\<rparr>])) \<noteq> Inl MochiNotFoundError"
  by (simp add: get_card_def requests_request_def checked_json_def and_then_def
        raise_for_status_def serving_def)

section \<open>Writing\<close>

text \<open>
  C3, as the code has it. The body of a create call holds all eight fields of
  \<open>CardData\<close> under their Python names; \<open>template_id\<close>, \<open>fields\<close>, \<open>attachments\<close> and
  \<open>pos\<close> are null when the caller did not supply them.
\<close>

theorem create_card_body:
  "sent (snd (create_card V self c d t f a ar p rr w)) =
     sent w @
     [\<lparr>meth = POST, url = base_url self @ ''/cards/'', params = [],
       json_body = Some (JObj
         [(''content'', JStr c),
          (''deck_id'', JStr d),
          (''template_id'', case t of None \<Rightarrow> JNull | Some x \<Rightarrow> JStr x),
          (''fields'', case f of None \<Rightarrow> JNull | Some x \<Rightarrow> JObj x),
          (''attachments'', case a of None \<Rightarrow> JNull | Some x \<Rightarrow> JArr x),
          (''archived'', JBool ar),
          (''pos'', case p of None \<Rightarrow> JNull | Some x \<Rightarrow> JStr x),
          (''review_reverse'', JBool rr)]),
       headers = client_headers self, timeout = Some 5\<rparr>]"
  by (simp add: create_card_def CardData_init_def CardData_dict_def json_opt_def
        requests_request_def split: list.splits)

text \<open>
  C3, as the claim has it, fails: a create call with content and deck only sends
  four explicit nulls.
\<close>

theorem create_card_sends_null:
  "map json_body
     (sent (snd (create_card plain_validators test_double ''Hello world'' ''deck_123''
                   None None None False None False (serving [])))) =
     [Some (JObj
        [(''content'', JStr ''Hello world''), (''deck_id'', JStr ''deck_123''),
         (''template_id'', JNull), (''fields'', JNull), (''attachments'', JNull),
         (''archived'', JBool False), (''pos'', JNull), (''review_reverse'', JBool False)])]"
  by (simp add: create_card_def CardData_init_def CardData_dict_def json_opt_def
        requests_request_def serving_def)

text \<open>
  C2, as the code has it. When the caller of \<open>update_card\<close> sets \<open>content\<close>, \<open>deck_id\<close>
  and \<open>archived\<close>, the body holds all eight fields of \<open>CardData\<close>: \<open>fields\<close>,
  \<open>attachments\<close> and \<open>pos\<close> are null when the caller did not mention them,
  \<open>template_id\<close> is null and \<open>review_reverse\<close> is false.
\<close>

theorem update_card_body:
  "sent (snd (update_card V self cid (Some c) (Some d) f a (Some ar) p w)) =
     sent w @
     [\<lparr>meth = POST, url = base_url self @ ''/cards/'' @ cid, params = [],
       json_body = Some (JObj
         [(''content'', JStr c),
          (''deck_id'', JStr d),
          (''template_id'', JNull),
          (''fields'', case f of None \<Rightarrow> JNull | Some x \<Rightarrow> JObj x),
          (''attachments'', case a of None \<Rightarrow> JNull | Some x \<Rightarrow> JArr x),
          (''archived'', JBool ar),
          (''pos'', case p of None \<Rightarrow> JNull | Some x \<Rightarrow> JStr x),
          (''review_reverse'', JBool False)]),
       headers = client_headers self, timeout = Some 5\<rparr>]"
  by (simp add: update_card_def CardData_init_def CardData_dict_def json_opt_def
        requests_request_def split: list.splits)

text \<open>
  C2, as the claim has it, fails: an update that mentions content, deck and the
  archived flag sends the other five fields too, four of them as null.
\<close>

theorem update_card_sends_null:
  "map json_body
     (sent (snd (update_card plain_validators test_double ''card_1'' (Some ''New text'')
                   (Some ''deck_123'') None None (Some True) None (serving [])))) =
     [Some (JObj
        [(''content'', JStr ''New text''), (''deck_id'', JStr ''deck_123''),
         (''template_id'', JNull), (''fields'', JNull), (''attachments'', JNull),
         (''archived'', JBool True), (''pos'', JNull), (''review_reverse'', JBool False)])]"
  by (simp add: update_card_def CardData_init_def CardData_dict_def json_opt_def
        requests_request_def serving_def)

text \<open>
  An update that leaves out \<open>content\<close>, \<open>deck_id\<close> or \<open>archived\<close> does not reach the
  service: \<open>CardData\<close> rejects the \<open>None\<close>.
\<close>

lemma update_card_needs_content_deck_archived:
  "c = None \<or> d = None \<or> ar = None \<Longrightarrow>
   update_card V self cid c d f a ar p w = (Inl ValidationError, w)"
  by (auto simp: update_card_def CardData_init_def split: option.splits)

section \<open>The base address\<close>

text \<open>
  C9. Five operations build their address from \<open>self.base_url\<close>; \<open>trash_card\<close> builds
  it from the class constant \<open>BASE_URL\<close>, so a client pointed at a test double
  still sends its trash request to the default address.
\<close>

theorem trash_card_ignores_base_url:
  "map url (sent (snd (trash_card test_double ''card_1'' (serving [])))) =
     [''https://api.mochi.cards/api/cards/card_1/trash'']
   \<and> base_url test_double = ''http://localhost:8000''"
  by (simp add: trash_card_def requests_request_def serving_def BASE_URL_def test_double_def)

lemma other_operations_use_base_url:
  "map url (sent (snd (create_card V self c d t f a ar p rr (serving rs)))) = [base_url self @ ''/cards/'']"
  "map url (sent (snd (get_card V self cid (serving rs)))) = [base_url self @ ''/cards/'' @ cid]"
  "map url (sent (snd (list_cards_page V self dk l b (serving rs)))) = [base_url self @ ''/cards/'']"
  "map url (sent (snd (delete_card self cid (serving rs)))) = [base_url self @ ''/cards/'' @ cid]"
  "map url (sent (snd (update_card V self cid (Some c) (Some d) f a (Some ar) p (serving rs))))
     = [base_url self @ ''/cards/'' @ cid]"
  by (simp_all add: create_card_def get_card_def list_cards_page_def delete_card_def
        update_card_def page_request_def CardData_init_def requests_request_def serving_def
        split: list.splits)

section \<open>Construction\<close>

text \<open>
  C8. Constructing the client with no \<open>api_key\<close> argument while \<open>MOCHI_API_KEY\<close> is
  unset, or set to the empty string, fails at construction with the configuration
  error, which the code raises as \<open>ValueError\<close>; the world is left as it was, so
  no request has been sent.
\<close>

theorem init_without_credential_fails:
  assumes "environ w ''MOCHI_API_KEY'' = None \<or> environ w ''MOCHI_API_KEY'' = Some []"
  shows "MochiClient_init None base w = (Inl ValueError, w)"
  using assms by (auto simp: MochiClient_init_def)

theorem init_without_credential_fails_witness:
  "environ \<lparr>environ = Map.empty, replies = [], sent = []\<rparr> ''MOCHI_API_KEY'' = None
   \<and> MochiClient_init None None \<lparr>environ = Map.empty, replies = [], sent = []\<rparr>
       = (Inl ValueError, \<lparr>environ = Map.empty, replies = [], sent = []\<rparr>)"
  using init_without_credential_fails
    [of "\<lparr>environ = Map.empty, replies = [], sent = []\<rparr>" None]
  by simp

end
